theory Spec2Isabelle
  imports Main "HOL-Library.Word"
begin

section \<open>Data model of the image-file action\<close>

text \<open>
  Go \<^verbatim>\<open>error\<close> values are modelled by their message; \<^verbatim>\<open>nil\<close> is \<open>None\<close>.
  A \<^verbatim>\<open>losetup.Device\<close> is identified by its loop number.
\<close>

type_synonym error = string
type_synonym device = nat

text \<open>
  \<^verbatim>\<open>type ImageFileAction struct\<close>. The field \<^verbatim>\<open>size\<close> is called \<open>size_f\<close> here, since
  \<open>size\<close> is a constant of HOL. The embedded \<^verbatim>\<open>debos.BaseAction\<close> is not part of the source
  file; of it only the call \<^verbatim>\<open>LogStart\<close> is used, which is an event below.
\<close>

record ImageFileAction =
  ImageName :: string
  ImageSize :: string
  FS :: string
  FSName :: string
  size_f :: int
  loopDev :: device
  usingLoop :: bool

text \<open>
  The fields of \<^verbatim>\<open>debos.DebosContext\<close> the action touches. \<^verbatim>\<open>Image\<close> is called
  \<open>Image_ctx\<close>, since \<open>Image\<close> is the relational image of HOL.
\<close>

record DebosContext =
  Image_ctx :: string
  ImageMntDir :: string
  Scratchdir :: string
  Rootdir :: string

section \<open>The operating system: events, outcomes, files\<close>

text \<open>
  Every call that leaves the action (system call, library call, external command, log
  line) is recorded as an event, in the order of the calls, with the arguments the code
  passes and what the call returned. \<open>E_Flock\<close> is \<^verbatim>\<open>syscall.Flock(fd, syscall.LOCK_EX)\<close>
  on the descriptor opened at the given path, \<open>E_Close\<close> the close of that descriptor;
  \<open>E_Mount\<close> is \<^verbatim>\<open>syscall.Mount(source, target, fstype, 0, "")\<close> and \<open>E_Unmount\<close> is
  \<^verbatim>\<open>syscall.Unmount(target, 0)\<close>; \<open>E_Attach\<close> is \<^verbatim>\<open>losetup.Attach(name, 0, false)\<close>,
  \<open>E_OpenFile\<close> is \<^verbatim>\<open>os.OpenFile(name, os.O_WRONLY|os.O_CREATE, 0666)\<close>, \<open>E_MkdirAll\<close> is
  \<^verbatim>\<open>os.MkdirAll(path, 0755)\<close>, and \<open>E_Printf\<close> is \<^verbatim>\<open>log.Printf\<close> with its format string
  and operands.
\<close>

datatype printf_arg = ArgS string | ArgD int

datatype event =
    E_Printf string "printf_arg list"
  | E_LogStart
  | E_OpenFile string "error option"
  | E_Truncate string int "error option"
  | E_CloseFile string
  | E_Attach string "device \<times> error option"
  | E_CreateImage string int "error + string"
  | E_Open string "error option"
  | E_Flock string "error option"
  | E_Close string
  | E_CommandRun string "string list" "error option"
  | E_EvalSymlinks string "string \<times> error option"
  | E_MkdirAll string "error option"
  | E_Mount string string string "error option"
  | E_Unmount string "error option"
  | E_Detach device "error option"
  | E_Remove device "error option"
  | E_Sleep int

text \<open>
  The world the action runs in: the trace of events so far, and the regular files by path
  with their contents.
\<close>

record world =
  trace :: "event list"
  files :: "string \<Rightarrow> 8 word list option"

text \<open>
  The collaborators the source file calls but does not define. The outcome of a call may
  depend on everything that happened before (the trace) and on the arguments; the pure
  library functions \<^verbatim>\<open>units.FromHumanSize\<close>, \<^verbatim>\<open>path.Join\<close> and \<^verbatim>\<open>Device.Path\<close> depend on
  their arguments only. A result written \<open>'a \<times> error option\<close> is Go's pair
  \<^verbatim>\<open>(value, err)\<close> where the code uses the value whatever \<^verbatim>\<open>err\<close> is.
\<close>

record env =
  FromHumanSize :: "string \<Rightarrow> error + int"
  path_Join :: "string \<Rightarrow> string \<Rightarrow> string"
  Path :: "device \<Rightarrow> string"
  OpenFile_r :: "event list \<Rightarrow> string \<Rightarrow> error option"
  Truncate_r :: "event list \<Rightarrow> string \<Rightarrow> int \<Rightarrow> error option"
  Attach_r :: "event list \<Rightarrow> string \<Rightarrow> device \<times> error option"
  CreateImage_r :: "event list \<Rightarrow> string \<Rightarrow> int \<Rightarrow> error + string"
  Open_r :: "event list \<Rightarrow> string \<Rightarrow> error option"
  Flock_r :: "event list \<Rightarrow> string \<Rightarrow> error option"
  CommandRun_r :: "event list \<Rightarrow> string \<Rightarrow> string list \<Rightarrow> error option"
  EvalSymlinks_r :: "event list \<Rightarrow> string \<Rightarrow> string \<times> error option"
  MkdirAll_r :: "event list \<Rightarrow> string \<Rightarrow> error option"
  Mount_r :: "event list \<Rightarrow> string \<Rightarrow> string \<Rightarrow> string \<Rightarrow> error option"
  Unmount_r :: "event list \<Rightarrow> string \<Rightarrow> error option"
  Detach_r :: "event list \<Rightarrow> device \<Rightarrow> error option"
  Remove_r :: "event list \<Rightarrow> device \<Rightarrow> error option"

definition emit :: "event \<Rightarrow> world \<Rightarrow> world" where
  "emit e w = w\<lparr>trace := trace w @ [e]\<rparr>"

text \<open>The events a computation added to the trace of the world it started in.\<close>

definition new_events :: "world \<Rightarrow> world \<Rightarrow> event list" where
  "new_events w w' = drop (length (trace w)) (trace w')"

definition Printf :: "string \<Rightarrow> printf_arg list \<Rightarrow> world \<Rightarrow> world" where
  "Printf format args w = emit (E_Printf format args) w"

text \<open>\<^verbatim>\<open>time.Second\<close>, a \<^verbatim>\<open>time.Duration\<close> in nanoseconds.\<close>

definition Second :: int where
  "Second = 1000000000"

definition Sleep :: "int \<Rightarrow> world \<Rightarrow> world" where
  "Sleep d w = emit (E_Sleep d) w"

subsection \<open>Files\<close>

text \<open>
  \<^verbatim>\<open>os.OpenFile(name, os.O_WRONLY|os.O_CREATE, 0666)\<close>: without \<^verbatim>\<open>O_TRUNC\<close> and
  \<^verbatim>\<open>O_APPEND\<close>, a file that exists is opened as it is, and a file that does not exist is
  created empty.
\<close>

definition OpenFile :: "env \<Rightarrow> string \<Rightarrow> world \<Rightarrow> error option \<times> world" where
  "OpenFile env name w =
     (let err = OpenFile_r env (trace w) name;
          w1 = emit (E_OpenFile name err) w
      in case err of
           Some e \<Rightarrow> (Some e, w1)
         | None \<Rightarrow>
             (None, w1\<lparr>files := (case files w name of
                                   None \<Rightarrow> (files w)(name \<mapsto> [])
                                 | Some c \<Rightarrow> files w)\<rparr>))"

text \<open>
  The contents of a file after \<^verbatim>\<open>ftruncate\<close> to \<open>n\<close> bytes: the first \<open>n\<close> bytes are
  kept, a shorter file is extended with zero bytes.
\<close>

definition resize :: "nat \<Rightarrow> 8 word list \<Rightarrow> 8 word list" where
  "resize n c = take n c @ replicate (n - length c) 0"

text \<open>
  \<^verbatim>\<open>img.Truncate(size)\<close> on the file opened at \<open>name\<close>. A negative size is refused by the
  system call (\<^verbatim>\<open>EINVAL\<close>).
\<close>

definition Truncate :: "env \<Rightarrow> string \<Rightarrow> int \<Rightarrow> world \<Rightarrow> error option \<times> world" where
  "Truncate env name n w =
     (let err = (if n < 0 then Some ''invalid argument'' else Truncate_r env (trace w) name n);
          w1 = emit (E_Truncate name n err) w
      in case err of
           Some e \<Rightarrow> (Some e, w1)
         | None \<Rightarrow>
             (None, w1\<lparr>files := (files w)(name \<mapsto>
                resize (nat n) (case files w name of None \<Rightarrow> [] | Some c \<Rightarrow> c))\<rparr>))"

definition CloseFile :: "string \<Rightarrow> world \<Rightarrow> world" where
  "CloseFile name w = emit (E_CloseFile name) w"

subsection \<open>Loop devices and the delegate\<close>

definition Attach :: "env \<Rightarrow> string \<Rightarrow> world \<Rightarrow> (device \<times> error option) \<times> world" where
  "Attach env name w =
     (let r = Attach_r env (trace w) name in (r, emit (E_Attach name r) w))"

definition Detach :: "env \<Rightarrow> device \<Rightarrow> world \<Rightarrow> error option \<times> world" where
  "Detach env d w =
     (let err = Detach_r env (trace w) d in (err, emit (E_Detach d err) w))"

definition Remove :: "env \<Rightarrow> device \<Rightarrow> world \<Rightarrow> error option \<times> world" where
  "Remove env d w =
     (let err = Remove_r env (trace w) d in (err, emit (E_Remove d err) w))"

definition CreateImage :: "env \<Rightarrow> string \<Rightarrow> int \<Rightarrow> world \<Rightarrow> (error + string) \<times> world" where
  "CreateImage env name n w =
     (let r = CreateImage_r env (trace w) name n
      in (r, emit (E_CreateImage name n r) w))"

subsection \<open>Lock, format command, mount\<close>

definition Open :: "env \<Rightarrow> string \<Rightarrow> world \<Rightarrow> error option \<times> world" where
  "Open env name w =
     (let err = Open_r env (trace w) name in (err, emit (E_Open name err) w))"

definition Flock :: "env \<Rightarrow> string \<Rightarrow> world \<Rightarrow> error option \<times> world" where
  "Flock env name w =
     (let err = Flock_r env (trace w) name in (err, emit (E_Flock name err) w))"

definition Close :: "string \<Rightarrow> world \<Rightarrow> world" where
  "Close name w = emit (E_Close name) w"

definition CommandRun :: "env \<Rightarrow> string \<Rightarrow> string list \<Rightarrow> world \<Rightarrow> error option \<times> world" where
  "CommandRun env label cmdline w =
     (let err = CommandRun_r env (trace w) label cmdline
      in (err, emit (E_CommandRun label cmdline err) w))"

definition EvalSymlinks :: "env \<Rightarrow> string \<Rightarrow> world \<Rightarrow> (string \<times> error option) \<times> world" where
  "EvalSymlinks env p w =
     (let r = EvalSymlinks_r env (trace w) p in (r, emit (E_EvalSymlinks p r) w))"

definition MkdirAll :: "env \<Rightarrow> string \<Rightarrow> world \<Rightarrow> error option \<times> world" where
  "MkdirAll env p w =
     (let err = MkdirAll_r env (trace w) p in (err, emit (E_MkdirAll p err) w))"

definition Mount :: "env \<Rightarrow> string \<Rightarrow> string \<Rightarrow> string \<Rightarrow> world \<Rightarrow> error option \<times> world" where
  "Mount env source target fstype w =
     (let err = Mount_r env (trace w) source target fstype
      in (err, emit (E_Mount source target fstype err) w))"

definition Unmount :: "env \<Rightarrow> string \<Rightarrow> world \<Rightarrow> error option \<times> world" where
  "Unmount env target w =
     (let err = Unmount_r env (trace w) target in (err, emit (E_Unmount target err) w))"

section \<open>The action\<close>

subsection \<open>formatFile\<close>

text \<open>
  The \<^verbatim>\<open>switch i.FS\<close> of \<^verbatim>\<open>formatFile\<close>: the command line it builds, and the receiver
  as the switch leaves it. The receiver of \<^verbatim>\<open>formatFile\<close> is passed by value, so the
  assignment \<^verbatim>\<open>i.FS = "hfsplus"\<close> in the case \<^verbatim>\<open>"hfsx"\<close> changes the callee's copy.
\<close>

definition formatFile_switch :: "ImageFileAction \<Rightarrow> string list \<times> ImageFileAction" where
  "formatFile_switch i =
     (if FS i = ''vfat'' then ([''mkfs.vfat'', ''-F32'', ''-n'', FSName i], i)
      else if FS i = ''btrfs'' then ([''mkfs.btrfs'', ''-L'', FSName i, ''-f''], i)
      else if FS i = ''hfs'' then ([''mkfs.hfs'', ''-h'', ''-v'', FSName i], i)
      else if FS i = ''hfsplus'' then ([''mkfs.hfsplus'', ''-v'', FSName i], i)
      else if FS i = ''hfsx'' then
        ([''mkfs.hfsplus'', ''-s'', ''-v'', FSName i], i\<lparr>FS := ''hfsplus''\<rparr>)
      else if FS i = ''none'' then ([], i)
      else ([''mkfs.'' @ FS i, ''-L'', FSName i], i))"

text \<open>
  \<^verbatim>\<open>func (i ImageFileAction) formatFile(context debos.DebosContext) error\<close>. The model
  returns the callee's copy of the receiver beside the error, so that what the callee
  recorded can be compared with what the caller still holds.
\<close>

definition formatFile ::
  "env \<Rightarrow> ImageFileAction \<Rightarrow> DebosContext \<Rightarrow> world \<Rightarrow> error option \<times> ImageFileAction \<times> world" where
  "formatFile env i context w =
     (let label = ''Formatting file'';
          (cmdline, i) = formatFile_switch i
      in if length cmdline \<noteq> 0 then
           (let cmdline = cmdline @ [Image_ctx context];
                (err, w) = CommandRun env label cmdline w
            in case err of
                 Some e \<Rightarrow> (Some e, i, w)
               | None \<Rightarrow> (None, i, w))
         else (None, i, w))"

subsection \<open>PreNoMachine\<close>

text \<open>
  The three statements of \<^verbatim>\<open>PreNoMachine\<close> that create the backing file (open, truncate,
  close), which the specification calls the allocate operation. On a failed truncate the
  function returns without closing the file.
\<close>

definition allocate :: "env \<Rightarrow> string \<Rightarrow> int \<Rightarrow> world \<Rightarrow> error option \<times> world" where
  "allocate env name sz w =
     (let (err, w) = OpenFile env name w
      in case err of
           Some e \<Rightarrow> (Some (''Couldn't open image file: '' @ e), w)
         | None \<Rightarrow>
             (let (err, w) = Truncate env name sz w
              in case err of
                   Some e \<Rightarrow> (Some (''Couldn't resize image file: '' @ e), w)
                 | None \<Rightarrow> (None, CloseFile name w)))"

text \<open>
  \<^verbatim>\<open>func (i *ImageFileAction) PreNoMachine(context *debos.DebosContext) error\<close>. Receiver
  and context are pointers: the model returns both as the caller sees them afterwards.
\<close>

definition PreNoMachine ::
  "env \<Rightarrow> ImageFileAction \<Rightarrow> DebosContext \<Rightarrow> world \<Rightarrow>
     error option \<times> ImageFileAction \<times> DebosContext \<times> world" where
  "PreNoMachine env i context w =
     (case FromHumanSize env (ImageSize i) of
        Inl e \<Rightarrow> (Some (''Failed to parse image size: '' @ ImageSize i), i, context, w)
      | Inr sz \<Rightarrow>
          (let i = i\<lparr>size_f := sz\<rparr>;
               w = Printf ''PreNoMachine: %s, size: %d'' [ArgS (ImageName i), ArgD (size_f i)] w;
               (err, w) = allocate env (ImageName i) (size_f i) w
           in case err of
                Some e \<Rightarrow> (Some e, i, context, w)
              | None \<Rightarrow>
                  (let ((d, err), w) = Attach env (ImageName i) w;
                       i = i\<lparr>loopDev := d\<rparr>
                   in case err of
                        Some e \<Rightarrow> (Some ''Failed to setup loop device - need sudo?'', i, context, w)
                      | None \<Rightarrow>
                          (let context = context\<lparr>Image_ctx := Path env (loopDev i)\<rparr>;
                               i = i\<lparr>usingLoop := True\<rparr>
                           in (None, i, context, w)))))"

subsection \<open>PreMachine\<close>

text \<open>
  \<^verbatim>\<open>func (i ImageFileAction) PreMachine(context *debos.DebosContext, m *fakemachine.Machine,
  args *[]string) error\<close>. Context and argument list are pointers; the receiver is passed by
  value, so the assignment \<^verbatim>\<open>i.size = size\<close> changes the callee's copy \<open>i_copy\<close>, and
  the action the caller holds afterwards is the one it passed.
\<close>

definition PreMachine ::
  "env \<Rightarrow> ImageFileAction \<Rightarrow> DebosContext \<Rightarrow> string list \<Rightarrow> world \<Rightarrow>
     error option \<times> ImageFileAction \<times> DebosContext \<times> string list \<times> world" where
  "PreMachine env i context args w =
     (let i_copy = i
      in case FromHumanSize env (ImageSize i_copy) of
           Inl e \<Rightarrow>
             (Some (''Failed to parse image size: '' @ ImageSize i_copy), i, context, args, w)
         | Inr sz \<Rightarrow>
             (let i_copy = i_copy\<lparr>size_f := sz\<rparr>;
                  w = Printf ''context.Rootdir: %s'' [ArgS (Rootdir context)] w;
                  w = Printf ''PreMachine: %s, size: %d''
                        [ArgS (ImageName i_copy), ArgD (size_f i_copy)] w;
                  (r, w) = CreateImage env (ImageName i_copy) (size_f i_copy) w
              in case r of
                   Inl e \<Rightarrow> (Some e, i, context, args, w)
                 | Inr img \<Rightarrow>
                     (let context = context\<lparr>Image_ctx := img\<rparr>;
                          args = args @ [''--internal-image'', img]
                      in (None, i, context, args, w))))"

subsection \<open>Run\<close>

text \<open>
  The part of \<^verbatim>\<open>Run\<close> after \<^verbatim>\<open>defer imageFD.Close()\<close>: lock, format, mount. The copy of
  the action that \<^verbatim>\<open>formatFile\<close> changed is dropped: \<^verbatim>\<open>formatFile\<close> has a value receiver,
  and \<^verbatim>\<open>Run\<close> goes on with its own \<open>i\<close>. The errors of \<^verbatim>\<open>filepath.EvalSymlinks\<close> and of
  \<^verbatim>\<open>os.MkdirAll\<close> are assigned to \<^verbatim>\<open>_\<close>.
\<close>

definition Run_locked ::
  "env \<Rightarrow> ImageFileAction \<Rightarrow> DebosContext \<Rightarrow> world \<Rightarrow> error option \<times> DebosContext \<times> world" where
  "Run_locked env i context w =
     (let (err, w) = Flock env (Image_ctx context) w
      in case err of
           Some e \<Rightarrow> (Some e, context, w)
         | None \<Rightarrow>
             (let (err, i_formatted, w) = formatFile env i context w
              in case err of
                   Some e \<Rightarrow> (Some e, context, w)
                 | None \<Rightarrow>
                     (let ((dev, err_ignored), w) = EvalSymlinks env (Image_ctx context) w;
                          context = context\<lparr>ImageMntDir := path_Join env (Scratchdir context) ''mnt''\<rparr>;
                          (err_ignored, w) = MkdirAll env (ImageMntDir context) w;
                          (err, w) = Mount env dev (ImageMntDir context) (FS i) w
                      in case err of
                           Some e \<Rightarrow>
                             (Some (ImageMntDir context @ '' mount failed: '' @ e), context, w)
                         | None \<Rightarrow> (None, context, w))))"

text \<open>
  \<^verbatim>\<open>func (i ImageFileAction) Run(context *debos.DebosContext) error\<close>. Once the image is
  open, the deferred \<^verbatim>\<open>imageFD.Close()\<close> runs at every return, after the rest of the body.
\<close>

definition Run ::
  "env \<Rightarrow> ImageFileAction \<Rightarrow> DebosContext \<Rightarrow> world \<Rightarrow> error option \<times> DebosContext \<times> world" where
  "Run env i context w =
     (let w = emit E_LogStart w;
          w = Printf (''Run: '' @ Image_ctx context) [] w;
          (err, w) = Open env (Image_ctx context) w
      in case err of
           Some e \<Rightarrow> (Some e, context, w)
         | None \<Rightarrow>
             (let (err, context', w) = Run_locked env i context w
              in (err, context', Close (Image_ctx context) w)))"

subsection \<open>Cleanup\<close>

text \<open>
  The loop \<^verbatim>\<open>for t := 0; t < 60; t++\<close> of \<^verbatim>\<open>Cleanup\<close>, from the state where the counter
  is \<open>t\<close> and the variable \<^verbatim>\<open>err\<close> holds \<open>err\<close>. It returns the value of \<^verbatim>\<open>err\<close> at
  the exit of the loop.
\<close>

function remove_loop ::
  "env \<Rightarrow> device \<Rightarrow> int \<Rightarrow> error option \<Rightarrow> world \<Rightarrow> error option \<times> world" where
  "remove_loop env d t err w =
     (if t < 60 then
        (let (err, w) = Remove env d w
         in case err of
              None \<Rightarrow> (None, w)
            | Some e \<Rightarrow>
                (let w = Printf ''Loop dev couldn't remove %s, waiting'' [ArgS e] w;
                     w = Sleep Second w
                 in remove_loop env d (t + 1) (Some e) w))
      else (err, w))"
  by pat_completeness auto
termination
  by (relation "measure (\<lambda>(env, d, t, err, w). nat (60 - t))") auto

text \<open>
  \<^verbatim>\<open>func (i ImageFileAction) Cleanup(context *debos.DebosContext) error\<close>.
\<close>

definition Cleanup ::
  "env \<Rightarrow> ImageFileAction \<Rightarrow> DebosContext \<Rightarrow> world \<Rightarrow> error option \<times> world" where
  "Cleanup env i context w =
     (let (err, w) = Unmount env (ImageMntDir context) w
      in case err of
           Some e \<Rightarrow>
             (let w = Printf ''Warning: Failed to get unmount %s: %s''
                        [ArgS (ImageMntDir context), ArgS e] w;
                  w = Printf ''Unmount failure can cause images being incomplete!'' [] w
              in (Some e, w))
         | None \<Rightarrow>
             (if usingLoop i then
                (let (err, w) = Detach env (loopDev i) w
                 in case err of
                      Some e \<Rightarrow>
                        (let w = Printf ''WARNING: Failed to detach loop device: %s'' [ArgS e] w
                         in (Some e, w))
                    | None \<Rightarrow>
                        (let (err, w) = remove_loop env (loopDev i) 0 err w
                         in case err of
                              Some e \<Rightarrow>
                                (let w = Printf ''WARNING: Failed to remove loop device: %s''
                                           [ArgS e] w
                                 in (Some e, w))
                            | None \<Rightarrow> (None, w)))
              else (None, w)))"

section \<open>Reading traces\<close>

text \<open>
  The events of one failed pass through the removal loop of \<^verbatim>\<open>Cleanup\<close>: the removal
  that failed with \<open>e\<close>, the log line, the sleep of one second.
\<close>

definition failed_attempt :: "device \<Rightarrow> error \<Rightarrow> event list" where
  "failed_attempt d e =
     [E_Remove d (Some e), E_Printf ''Loop dev couldn't remove %s, waiting'' [ArgS e], E_Sleep Second]"

text \<open>Kinds of events.\<close>

fun is_CommandRun :: "event \<Rightarrow> bool" where
  "is_CommandRun (E_CommandRun l c r) = True"
| "is_CommandRun e = False"

fun is_Mount :: "event \<Rightarrow> bool" where
  "is_Mount (E_Mount s t f r) = True"
| "is_Mount e = False"

fun is_MkdirAll :: "event \<Rightarrow> bool" where
  "is_MkdirAll (E_MkdirAll p r) = True"
| "is_MkdirAll e = False"

fun is_Unmount :: "event \<Rightarrow> bool" where
  "is_Unmount (E_Unmount t r) = True"
| "is_Unmount e = False"

fun is_Detach :: "event \<Rightarrow> bool" where
  "is_Detach (E_Detach d r) = True"
| "is_Detach e = False"

fun is_Remove :: "event \<Rightarrow> bool" where
  "is_Remove (E_Remove d r) = True"
| "is_Remove e = False"

text \<open>
  Whether the exclusive lock on the descriptor opened at \<open>p\<close> is held after a sequence
  of events: a successful \<^verbatim>\<open>flock\<close> takes it, closing the descriptor gives it up.
\<close>

fun lock_step :: "string \<Rightarrow> bool \<Rightarrow> event \<Rightarrow> bool" where
  "lock_step p held (E_Flock q None) = (if q = p then True else held)"
| "lock_step p held (E_Close q) = (if q = p then False else held)"
| "lock_step p held e = held"

definition holds_lock :: "string \<Rightarrow> event list \<Rightarrow> bool" where
  "holds_lock p ev = foldl (lock_step p) False ev"

text \<open>
  A trace keeps the lock discipline from a state \<open>held\<close> on, when every format command
  and every mount call in it happens while the lock is held.
\<close>

fun lock_ok :: "string \<Rightarrow> bool \<Rightarrow> event list \<Rightarrow> bool" where
  "lock_ok p held [] = True"
| "lock_ok p held (e # es) =
     ((if is_CommandRun e \<or> is_Mount e then held else True) \<and> lock_ok p (lock_step p held e) es)"

section \<open>Example inputs\<close>

text \<open>
  An environment in which every call succeeds, the action and the context of the layout
  example in the source file's header, and an empty world.
\<close>

definition env_ok :: env where
  "env_ok = \<lparr>
     FromHumanSize = (\<lambda>s. if s = ''1GB'' then Inr 1000000000 else Inl (''invalid size: '' @ s)),
     path_Join = (\<lambda>a b. a @ ''/'' @ b),
     Path = (\<lambda>d. ''/dev/loop0''),
     OpenFile_r = (\<lambda>h name. None),
     Truncate_r = (\<lambda>h name n. None),
     Attach_r = (\<lambda>h name. (0, None)),
     CreateImage_r = (\<lambda>h name n. Inr ''/dev/disk/by-id/virtio-fakedisk-0''),
     Open_r = (\<lambda>h name. None),
     Flock_r = (\<lambda>h name. None),
     CommandRun_r = (\<lambda>h label cmdline. None),
     EvalSymlinks_r = (\<lambda>h p. (p, None)),
     MkdirAll_r = (\<lambda>h p. None),
     Mount_r = (\<lambda>h source target fstype. None),
     Unmount_r = (\<lambda>h target. None),
     Detach_r = (\<lambda>h d. None),
     Remove_r = (\<lambda>h d. None)\<rparr>"

definition act0 :: ImageFileAction where
  "act0 = \<lparr>ImageName = ''debian.img'', ImageSize = ''1GB'', FS = ''ext4'', FSName = ''debian'',
     size_f = 0, loopDev = 0, usingLoop = False\<rparr>"

definition ctx0 :: DebosContext where
  "ctx0 = \<lparr>Image_ctx = '''', ImageMntDir = '''', Scratchdir = ''/scratch'',
     Rootdir = ''/scratch/root''\<rparr>"

definition ctx1 :: DebosContext where
  "ctx1 = ctx0\<lparr>Image_ctx := ''/dev/loop0''\<rparr>"

definition w0 :: world where
  "w0 = \<lparr>trace = [], files = (\<lambda>name. None)\<rparr>"

text \<open>
  Environments in which the mount directory cannot be created: in the first the mount
  succeeds all the same, in the second it fails.
\<close>

definition env_mkdir_fails :: env where
  "env_mkdir_fails = env_ok\<lparr>MkdirAll_r := (\<lambda>h p. Some ''permission denied'')\<rparr>"

definition env_mkdir_mount_fail :: env where
  "env_mkdir_mount_fail =
     env_mkdir_fails\<lparr>Mount_r := (\<lambda>h source target fstype. Some ''no such file or directory'')\<rparr>"

text \<open>
  The example action as the direct preparation leaves it, the context after a successful
  \<^verbatim>\<open>Run\<close>, and environments in which the unmount fails, the removal of the loop device
  fails twice before it succeeds, and the removal fails every time.
\<close>

definition act_loop :: ImageFileAction where
  "act_loop = act0\<lparr>size_f := 1000000000, loopDev := 0, usingLoop := True\<rparr>"

definition ctx_mnt :: DebosContext where
  "ctx_mnt = ctx1\<lparr>ImageMntDir := ''/scratch/mnt''\<rparr>"

definition env_unmount_busy :: env where
  "env_unmount_busy = env_ok\<lparr>Unmount_r := (\<lambda>h target. Some ''device or resource busy'')\<rparr>"

definition env_remove_busy :: env where
  "env_remove_busy = env_ok\<lparr>Remove_r :=
     (\<lambda>h d. if length (filter is_Remove h) < 2 then Some ''device or resource busy'' else None)\<rparr>"

definition env_remove_stuck :: env where
  "env_remove_stuck = env_ok\<lparr>Remove_r := (\<lambda>h d. Some ''device or resource busy'')\<rparr>"

text \<open>
  A world in which the image file exists with five bytes, and an environment in which the
  loop device cannot be attached.
\<close>

definition w_big :: world where
  "w_big = w0\<lparr>files := (\<lambda>name. None)(''debian.img'' \<mapsto> [1, 2, 3, 4, 5])\<rparr>"

definition env_attach_fails :: env where
  "env_attach_fails = env_ok\<lparr>Attach_r := (\<lambda>h name. (0, Some ''permission denied''))\<rparr>"

section \<open>Traces of the operations\<close>

declare remove_loop.simps [simp del]

lemma trace_emit [simp]: "trace (emit e w) = trace w @ [e]"
  by (simp add: emit_def)

lemma files_emit [simp]: "files (emit e w) = files w"
  by (simp add: emit_def)

lemma remove_loop_events:
  "\<exists>errs. length errs \<le> nat (60 - t) \<and>
     trace (snd (remove_loop env d t err w)) =
       trace w @ concat (map (failed_attempt d) errs) @
         (if length errs < nat (60 - t) then [E_Remove d None] else []) \<and>
     fst (remove_loop env d t err w) =
       (if length errs < nat (60 - t) then None
        else if errs = [] then err else Some (last errs))"
proof (induction env d t err w rule: remove_loop.induct)
  case (1 env d t err w)
  show ?case
  proof (cases "t < 60")
    case False
    then have "remove_loop env d t err w = (err, w)" by (subst remove_loop.simps) simp
    with False show ?thesis by (intro exI [of _ "[]"]) simp
  next
    case True
    show ?thesis
    proof (cases "Remove_r env (trace w) d")
      case None
      with True have "remove_loop env d t err w = (None, emit (E_Remove d None) w)"
        by (subst remove_loop.simps) (simp add: Remove_def Let_def)
      with True show ?thesis by (intro exI [of _ "[]"]) simp
    next
      case (Some e)
      define w2 where "w2 = Sleep Second (Printf ''Loop dev couldn't remove %s, waiting'' [ArgS e] (emit (E_Remove d (Some e)) w))"
      from True Some have eq: "remove_loop env d t err w = remove_loop env d (t + 1) (Some e) w2"
        by (subst remove_loop.simps) (simp add: Remove_def w2_def Let_def)
      have tr: "trace w2 = trace w @ failed_attempt d e"
        by (simp add: w2_def Sleep_def Printf_def failed_attempt_def)
      from "1.IH" [OF True, of "(Some e, emit (E_Remove d (Some e)) w)" "Some e" "emit (E_Remove d (Some e)) w" e
          "Printf ''Loop dev couldn't remove %s, waiting'' [ArgS e] (emit (E_Remove d (Some e)) w)" w2]
      obtain errs where
        len: "length errs \<le> nat (60 - (t + 1))" and
        trc: "trace (snd (remove_loop env d (t + 1) (Some e) w2)) =
           trace w2 @ concat (map (failed_attempt d) errs) @
           (if length errs < nat (60 - (t + 1)) then [E_Remove d None] else [])" and
        res: "fst (remove_loop env d (t + 1) (Some e) w2) =
           (if length errs < nat (60 - (t + 1)) then None
            else if errs = [] then Some e else Some (last errs))"
        using Some by (auto simp: Remove_def w2_def Let_def)
      have ar: "(length (e # errs) < nat (60 - t)) = (length errs < nat (60 - (t + 1)))"
        using True by (simp add: nat_diff_distrib) arith
      show ?thesis
      proof (intro exI [of _ "e # errs"] conjI)
        show "length (e # errs) \<le> nat (60 - t)" using len True by simp
        show "trace (snd (remove_loop env d t err w)) =
           trace w @ concat (map (failed_attempt d) (e # errs)) @
           (if length (e # errs) < nat (60 - t) then [E_Remove d None] else [])"
          unfolding ar using trc tr by (simp add: eq)
        show "fst (remove_loop env d t err w) =
           (if length (e # errs) < nat (60 - t) then None
            else if e # errs = [] then err else Some (last (e # errs)))"
          unfolding ar using res by (simp add: eq)
      qed
    qed
  qed
qed


lemma formatFile_cases:
  "(\<exists>c. trace (snd (snd (formatFile env i context w))) =
          trace w @ [E_CommandRun ''Formatting file'' c (fst (formatFile env i context w))])
   \<or> (fst (formatFile env i context w) = None \<and> snd (snd (formatFile env i context w)) = w)"
  by (cases "formatFile_switch i")
    (simp add: formatFile_def CommandRun_def Let_def split: option.splits)

lemma Run_locked_cases:
  fixes env i "context" w
  defines "p \<equiv> Image_ctx context"
    and "mnt \<equiv> path_Join env (Scratchdir context) ''mnt''"
    and "R \<equiv> Run_locked env i context w"
  shows
   "(\<exists>e. trace (snd (snd R)) = trace w @ [E_Flock p (Some e)] \<and>
         fst R = Some e \<and> fst (snd R) = context)
  \<or> (\<exists>c e. trace (snd (snd R)) =
           trace w @ [E_Flock p None, E_CommandRun ''Formatting file'' c (Some e)] \<and>
         fst R = Some e \<and> fst (snd R) = context)
  \<or> (\<exists>fev r1 r2 m. trace (snd (snd R)) =
           trace w @ [E_Flock p None] @ fev @
             [E_EvalSymlinks p r1, E_MkdirAll mnt r2, E_Mount (fst r1) mnt (FS i) m] \<and>
         (fev = [] \<or> (\<exists>c. fev = [E_CommandRun ''Formatting file'' c None])) \<and>
         fst R = map_option (\<lambda>e. mnt @ '' mount failed: '' @ e) m \<and>
         fst (snd R) = context\<lparr>ImageMntDir := mnt\<rparr>)"
proof (cases "Flock_r env (trace w) p")
  case (Some e)
  then show ?thesis
    by (simp add: R_def p_def Run_locked_def Flock_def Let_def)
next
  case None
  define w1 where "w1 = emit (E_Flock p None) w"
  define F where "F = formatFile env i context w1"
  obtain ferr i' w2 where F: "F = (ferr, i', w2)" by (cases F) 
  have tr1: "trace w1 = trace w @ [E_Flock p None]" by (simp add: w1_def)
  from formatFile_cases [of env i "context" w1]
  have fc: "(\<exists>c. trace w2 = trace w1 @ [E_CommandRun ''Formatting file'' c ferr])
      \<or> (ferr = None \<and> w2 = w1)"
    using F by (simp add: F_def)
  show ?thesis
  proof (cases ferr)
    case (Some e)
    with fc obtain c where "trace w2 = trace w1 @ [E_CommandRun ''Formatting file'' c (Some e)]"
      by auto
    with None Some F tr1 show ?thesis
      by (simp add: R_def Run_locked_def Flock_def Let_def p_def [symmetric] w1_def [symmetric] F_def [symmetric])
  next
    case ferr: None
    from fc obtain fev where fev: "trace w2 = trace w1 @ fev"
      "fev = [] \<or> (\<exists>c. fev = [E_CommandRun ''Formatting file'' c None])"
      using ferr by auto
    have "\<exists>r1 r2 m. trace (snd (snd R)) =
           trace w @ [E_Flock p None] @ fev @
             [E_EvalSymlinks p r1, E_MkdirAll mnt r2, E_Mount (fst r1) mnt (FS i) m] \<and>
         fst R = map_option (\<lambda>e. mnt @ '' mount failed: '' @ e) m \<and>
         fst (snd R) = context\<lparr>ImageMntDir := mnt\<rparr>"
      using None ferr F fev(1) tr1
      by (simp add: R_def Run_locked_def Flock_def Let_def p_def [symmetric] w1_def [symmetric]
          F_def [symmetric] EvalSymlinks_def MkdirAll_def Mount_def mnt_def [symmetric]
          split: prod.splits option.splits)
    with fev(2) show ?thesis by blast
  qed
qed


lemma Run_cases:
  fixes env i "context" w
  defines "p \<equiv> Image_ctx context"
    and "mnt \<equiv> path_Join env (Scratchdir context) ''mnt''"
    and "R \<equiv> Run env i context w"
  defines "ev \<equiv> new_events w (snd (snd R))"
  shows
   "(\<exists>e. ev = [E_LogStart, E_Printf (''Run: '' @ p) [], E_Open p (Some e)] \<and>
         fst R = Some e \<and> fst (snd R) = context)
  \<or> (\<exists>e. ev = [E_LogStart, E_Printf (''Run: '' @ p) [], E_Open p None,
                E_Flock p (Some e), E_Close p] \<and>
         fst R = Some e \<and> fst (snd R) = context)
  \<or> (\<exists>c e. ev = [E_LogStart, E_Printf (''Run: '' @ p) [], E_Open p None, E_Flock p None,
                  E_CommandRun ''Formatting file'' c (Some e), E_Close p] \<and>
         fst R = Some e \<and> fst (snd R) = context)
  \<or> (\<exists>fev r1 r2 m.
         ev = [E_LogStart, E_Printf (''Run: '' @ p) [], E_Open p None, E_Flock p None] @ fev @
              [E_EvalSymlinks p r1, E_MkdirAll mnt r2, E_Mount (fst r1) mnt (FS i) m, E_Close p] \<and>
         (fev = [] \<or> (\<exists>c. fev = [E_CommandRun ''Formatting file'' c None])) \<and>
         fst R = map_option (\<lambda>e. mnt @ '' mount failed: '' @ e) m \<and>
         fst (snd R) = context\<lparr>ImageMntDir := mnt\<rparr>)"
proof -
  define h1 where "h1 = trace w @ [E_LogStart, E_Printf (''Run: '' @ p) []]"
  show ?thesis
  proof (cases "Open_r env h1 p")
    case (Some e)
    then have "R = (Some e, context, w\<lparr>trace := h1 @ [E_Open p (Some e)]\<rparr>)"
      by (simp add: R_def Run_def Open_def Let_def Printf_def emit_def p_def h1_def)
    then show ?thesis by (simp add: ev_def new_events_def h1_def)
  next
    case None
    define w2 where "w2 = w\<lparr>trace := h1 @ [E_Open p None]\<rparr>"
    define L where "L = Run_locked env i context w2"
    have tr2: "trace w2 = trace w @ [E_LogStart, E_Printf (''Run: '' @ p) [], E_Open p None]"
      by (simp add: w2_def h1_def)
    have R: "R = (fst L, fst (snd L), Close p (snd (snd L)))"
      using None
      by (simp add: R_def Run_def Open_def Let_def Printf_def emit_def p_def h1_def L_def w2_def
          split: prod.splits)
    have ev: "ev = drop (length (trace w)) (trace (snd (snd L))) @ [E_Close p]"
      if "length (trace w) \<le> length (trace (snd (snd L)))"
      using that by (simp add: ev_def new_events_def R Close_def)
    from Run_locked_cases [of env i "context" w2]
    consider
      (flock) e where "trace (snd (snd L)) = trace w2 @ [E_Flock p (Some e)]"
        "fst L = Some e" "fst (snd L) = context"
    | (format) c e where "trace (snd (snd L)) =
           trace w2 @ [E_Flock p None, E_CommandRun ''Formatting file'' c (Some e)]"
        "fst L = Some e" "fst (snd L) = context"
    | (mount) fev r1 r2 m where "trace (snd (snd L)) =
           trace w2 @ [E_Flock p None] @ fev @
             [E_EvalSymlinks p r1, E_MkdirAll mnt r2, E_Mount (fst r1) mnt (FS i) m]"
        "fev = [] \<or> (\<exists>c. fev = [E_CommandRun ''Formatting file'' c None])"
        "fst L = map_option (\<lambda>e. mnt @ '' mount failed: '' @ e) m"
        "fst (snd L) = context\<lparr>ImageMntDir := mnt\<rparr>"
      unfolding L_def [symmetric] p_def [symmetric] mnt_def [symmetric] by blast
    then show ?thesis
    proof cases
      case flock
      then show ?thesis using tr2 R by (simp add: ev)
    next
      case format
      then show ?thesis using tr2 R by (simp add: ev)
    next
      case mount
      have "ev = [E_LogStart, E_Printf (''Run: '' @ p) [], E_Open p None, E_Flock p None] @ fev @
              [E_EvalSymlinks p r1, E_MkdirAll mnt r2, E_Mount (fst r1) mnt (FS i) m, E_Close p]"
        using mount(1) tr2 by (simp add: ev)
      then show ?thesis using mount(2-4) R by (intro disjI2) (simp del: append.simps)
    qed
  qed
qed


subsection \<open>The lock during Run\<close>

lemma lock_ok_split:
  "lock_ok p held (pre @ e # post) \<Longrightarrow> is_CommandRun e \<or> is_Mount e \<Longrightarrow>
     foldl (lock_step p) held pre"
  by (induction pre arbitrary: held) (auto split: if_splits)

lemma split_unique:
  "xs @ x # ys = pre @ y # post \<Longrightarrow> P y \<Longrightarrow> \<forall>z \<in> set xs. \<not> P z \<Longrightarrow> \<forall>z \<in> set ys. \<not> P z \<Longrightarrow>
     pre = xs \<and> y = x \<and> post = ys"
proof (induction xs arbitrary: pre)
  case Nil
  then show ?case by (cases pre) auto
next
  case (Cons a xs)
  then show ?case by (cases pre) auto
qed

lemma Run_lock_ok:
  "lock_ok (Image_ctx ctx) False (new_events w (snd (snd (Run env i ctx w)))) \<and>
   \<not> holds_lock (Image_ctx ctx) (new_events w (snd (snd (Run env i ctx w))))"
  using Run_cases [of w env i ctx]
  by (elim disjE exE conjE) (auto simp: holds_lock_def)

lemmas run_eval =
  Run_def Run_locked_def formatFile_def formatFile_switch_def Open_def Flock_def
  CommandRun_def EvalSymlinks_def MkdirAll_def Mount_def Close_def Printf_def emit_def
  new_events_def Let_def act0_def ctx1_def ctx0_def env_ok_def w0_def

subsection \<open>Cleanup\<close>

lemma failed_attempts_Remove:
  "length (filter is_Remove (concat (map (failed_attempt d) errs))) = length errs"
  by (induction errs) (simp_all add: failed_attempt_def)

lemma failed_attempts_not_Detach:
  "filter is_Detach (concat (map (failed_attempt d) errs)) = []"
  by (induction errs) (simp_all add: failed_attempt_def)

lemma failed_attempts_not_Unmount:
  "filter is_Unmount (concat (map (failed_attempt d) errs)) = []"
  by (induction errs) (simp_all add: failed_attempt_def)

lemma Cleanup_cases:
  fixes env i ctx w
  defines "m \<equiv> ImageMntDir ctx" and "d \<equiv> loopDev i" and "R \<equiv> Cleanup env i ctx w"
  defines "ev \<equiv> new_events w (snd R)"
  obtains
    (unmount) e where
      "ev = [E_Unmount m (Some e),
             E_Printf ''Warning: Failed to get unmount %s: %s'' [ArgS m, ArgS e],
             E_Printf ''Unmount failure can cause images being incomplete!'' []]"
      "fst R = Some e"
  | (no_loop) "\<not> usingLoop i" "ev = [E_Unmount m None]" "fst R = None"
  | (detach) e where "usingLoop i"
      "ev = [E_Unmount m None, E_Detach d (Some e),
             E_Printf ''WARNING: Failed to detach loop device: %s'' [ArgS e]]"
      "fst R = Some e"
  | (remove) errs where "usingLoop i" "length errs \<le> 60"
      "ev = [E_Unmount m None, E_Detach d None] @ concat (map (failed_attempt d) errs) @
            (if length errs < 60 then [E_Remove d None]
             else [E_Printf ''WARNING: Failed to remove loop device: %s'' [ArgS (last errs)]])"
      "fst R = (if length errs < 60 then None else Some (last errs))"
proof (cases "Unmount_r env (trace w) m")
  case (Some e)
  then have "fst R = Some e" and
    "ev = [E_Unmount m (Some e),
             E_Printf ''Warning: Failed to get unmount %s: %s'' [ArgS m, ArgS e],
             E_Printf ''Unmount failure can cause images being incomplete!'' []]"
    by (simp_all add: R_def ev_def m_def Cleanup_def Unmount_def Printf_def Let_def new_events_def)
  then show ?thesis using unmount by blast
next
  case None
  define w1 where "w1 = emit (E_Unmount m None) w"
  show ?thesis
  proof (cases "usingLoop i")
    case False
    with None have "fst R = None" and "ev = [E_Unmount m None]"
      by (simp_all add: R_def ev_def m_def Cleanup_def Unmount_def Let_def new_events_def)
    with False show ?thesis using no_loop by blast
  next
    case True
    show ?thesis
    proof (cases "Detach_r env (trace w1) d")
      case (Some e)
      with None True have "fst R = Some e" and
        "ev = [E_Unmount m None, E_Detach d (Some e),
             E_Printf ''WARNING: Failed to detach loop device: %s'' [ArgS e]]"
        by (simp_all add: R_def ev_def m_def d_def w1_def Cleanup_def Unmount_def Detach_def
            Printf_def Let_def new_events_def)
      with True show ?thesis using detach by blast
    next
      case dn: None
      define w2 where "w2 = emit (E_Detach d None) w1"
      define L where "L = remove_loop env d 0 None w2"
      have tr2: "trace w2 = trace w @ [E_Unmount m None, E_Detach d None]"
        by (simp add: w2_def w1_def)
      from remove_loop_events [of 0 env d None w2]
      obtain errs where len: "length errs \<le> 60"
        and trL: "trace (snd L) = trace w2 @ concat (map (failed_attempt d) errs) @
           (if length errs < 60 then [E_Remove d None] else [])"
        and resL: "fst L = (if length errs < 60 then None
            else if errs = [] then None else Some (last errs))"
        unfolding L_def [symmetric] by auto
      have R: "R = (case fst L of
                      Some e \<Rightarrow> (Some e, Printf ''WARNING: Failed to remove loop device: %s''
                                           [ArgS e] (snd L))
                    | None \<Rightarrow> (None, snd L))"
        using None True dn
        by (simp add: R_def m_def d_def w1_def w2_def L_def Cleanup_def Unmount_def Detach_def
            Let_def case_prod_beta split: option.splits)
      have "fst R = (if length errs < 60 then None else Some (last errs))"
        using resL len by (auto simp: R)
      moreover have "ev = [E_Unmount m None, E_Detach d None] @ concat (map (failed_attempt d) errs) @
            (if length errs < 60 then [E_Remove d None]
             else [E_Printf ''WARNING: Failed to remove loop device: %s'' [ArgS (last errs)]])"
        using resL len trL tr2 by (auto simp: R ev_def new_events_def Printf_def)
      ultimately show ?thesis using remove True len by blast
    qed
  qed
qed

lemma Cleanup_Remove_count:
  "length (filter is_Remove
     ([E_Unmount m None, E_Detach d None] @ concat (map (failed_attempt d) errs) @
      (if length errs < 60 then [E_Remove d None] else [E_Printf f [ArgS x]]))) =
   (if length errs < 60 then length errs + 1 else length errs)"
  by (simp add: failed_attempts_Remove)

lemmas cleanup_eval =
  Cleanup_def Unmount_def Detach_def Remove_def Printf_def Sleep_def Second_def emit_def
  new_events_def Let_def act_loop_def act0_def ctx_mnt_def ctx1_def ctx0_def env_ok_def w0_def

text \<open>A device whose removal fails every time: 60 attempts, then the error.\<close>

lemma remove_loop_stuck:
  assumes "\<And>h. Remove_r env h d = Some e"
  shows "fst (remove_loop env d t err w) = (if t < 60 then Some e else err) \<and>
     length (filter is_Remove (trace (snd (remove_loop env d t err w)))) =
       length (filter is_Remove (trace w)) + nat (60 - t)"
  using assms
proof (induction env d t err w rule: remove_loop.induct)
  case (1 env d t err w)
  show ?case
  proof (cases "t < 60")
    case False
    then show ?thesis by (subst (1 2) remove_loop.simps) simp
  next
    case True
    define w1 where "w1 = emit (E_Remove d (Some e)) w"
    define w2 where "w2 = Printf ''Loop dev couldn't remove %s, waiting'' [ArgS e] w1"
    define w3 where "w3 = Sleep Second w2"
    have r: "Remove env d w = (Some e, w1)" by (simp add: Remove_def w1_def "1.prems" Let_def)
    have eq: "remove_loop env d t err w = remove_loop env d (t + 1) (Some e) w3"
      using True by (subst remove_loop.simps) (simp add: r w2_def w3_def Let_def)
    have tr: "length (filter is_Remove (trace w3)) = length (filter is_Remove (trace w)) + 1"
      by (simp add: w3_def w2_def w1_def Sleep_def Printf_def)
    have ar: "1 + nat (60 - (t + 1)) = nat (60 - t)" using True by simp
    from "1.IH" [OF True r [symmetric] refl refl w2_def w3_def "1.prems"]
    show ?thesis unfolding eq tr using True ar by simp
  qed
qed

lemma Cleanup_removal_exhausted_example:
  "fst (Cleanup env_remove_stuck act_loop ctx_mnt w0) = Some ''device or resource busy'' \<and>
   length (filter is_Remove (new_events w0 (snd (Cleanup env_remove_stuck act_loop ctx_mnt w0)))) = 60"
proof -
  have s: "\<And>h. Remove_r env_remove_stuck h 0 = Some ''device or resource busy''"
    by (simp add: env_remove_stuck_def env_ok_def)
  define w2 where "w2 = emit (E_Detach 0 None) (emit (E_Unmount ''/scratch/mnt'' None) w0)"
  define L where "L = remove_loop env_remove_stuck 0 0 None w2"
  have L: "fst L = Some ''device or resource busy''"
    "length (filter is_Remove (trace (snd L))) = 60"
    using remove_loop_stuck [OF s, of 0 None w2] by (simp_all add: L_def w2_def w0_def)
  have "Cleanup env_remove_stuck act_loop ctx_mnt w0 =
      (Some ''device or resource busy'',
       Printf ''WARNING: Failed to remove loop device: %s'' [ArgS ''device or resource busy'']
        (snd L))"
    using L(1)
    by (simp add: Cleanup_def Unmount_def Detach_def Let_def act_loop_def act0_def ctx_mnt_def
        ctx1_def ctx0_def env_ok_def env_remove_stuck_def L_def w2_def case_prod_beta
        split: option.splits)
  then show ?thesis using L(2) by (simp add: new_events_def Printf_def w0_def)
qed

subsection \<open>The backing file\<close>

lemma length_resize: "length (resize n c) = n"
  by (simp add: resize_def)

lemma resize_resize: "resize n (resize n c) = resize n c"
  by (simp add: resize_def)

lemma resize_longer: "n \<le> length c \<Longrightarrow> resize n c = take n c"
  by (simp add: resize_def)

lemma allocate_success:
  assumes "fst (allocate env name sz w) = None"
  shows "0 \<le> sz" and
    "files (snd (allocate env name sz w)) =
       (files w)(name \<mapsto> resize (nat sz) (case files w name of None \<Rightarrow> [] | Some c \<Rightarrow> c))" and
    "trace (snd (allocate env name sz w)) =
       trace w @ [E_OpenFile name None, E_Truncate name sz None, E_CloseFile name]"
  using assms
  by (auto simp: allocate_def OpenFile_def Truncate_def CloseFile_def Let_def
      split: option.splits if_splits)

lemma allocate_trace:
  "\<exists>aev. trace (snd (allocate env name sz w)) = trace w @ aev \<and>
         (\<forall>n r. E_Attach n r \<notin> set aev)"
  by (auto simp: allocate_def OpenFile_def Truncate_def CloseFile_def Let_def
      split: option.splits if_splits)

lemmas allocate_eval =
  allocate_def OpenFile_def Truncate_def CloseFile_def emit_def Let_def resize_def
  env_ok_def w0_def w_big_def

subsection \<open>The preparation phases\<close>

lemma PreNoMachine_cases:
  fixes env i ctx w
  defines "R \<equiv> PreNoMachine env i ctx w"
  defines "ev \<equiv> new_events w (snd (snd (snd R)))"
  obtains
    (parse) e where "FromHumanSize env (ImageSize i) = Inl e"
      "R = (Some (''Failed to parse image size: '' @ ImageSize i), i, ctx, w)"
  | (allocate) sz e aev where "FromHumanSize env (ImageSize i) = Inr sz"
      "fst R = Some e" "fst (snd R) = i\<lparr>size_f := sz\<rparr>" "fst (snd (snd R)) = ctx"
      "ev = E_Printf ''PreNoMachine: %s, size: %d'' [ArgS (ImageName i), ArgD sz] # aev"
      "\<forall>n r. E_Attach n r \<notin> set aev"
  | (attach) sz d e aev where "FromHumanSize env (ImageSize i) = Inr sz"
      "fst R = Some ''Failed to setup loop device - need sudo?''"
      "fst (snd R) = i\<lparr>size_f := sz, loopDev := d\<rparr>" "fst (snd (snd R)) = ctx"
      "ev = E_Printf ''PreNoMachine: %s, size: %d'' [ArgS (ImageName i), ArgD sz] # aev @
            [E_Attach (ImageName i) (d, Some e)]"
      "\<forall>n r. E_Attach n r \<notin> set aev"
  | (ready) sz d aev where "FromHumanSize env (ImageSize i) = Inr sz"
      "fst R = None"
      "fst (snd R) = i\<lparr>size_f := sz, loopDev := d, usingLoop := True\<rparr>"
      "fst (snd (snd R)) = ctx\<lparr>Image_ctx := Path env d\<rparr>"
      "ev = E_Printf ''PreNoMachine: %s, size: %d'' [ArgS (ImageName i), ArgD sz] # aev @
            [E_Attach (ImageName i) (d, None)]"
      "\<forall>n r. E_Attach n r \<notin> set aev"
proof (cases "FromHumanSize env (ImageSize i)")
  case (Inl e)
  then have "R = (Some (''Failed to parse image size: '' @ ImageSize i), i, ctx, w)"
    by (simp add: R_def PreNoMachine_def)
  with Inl show ?thesis using parse by blast
next
  case (Inr sz)
  define w1 where "w1 = Printf ''PreNoMachine: %s, size: %d'' [ArgS (ImageName i), ArgD sz] w"
  define A where "A = allocate env (ImageName i) sz w1"
  from allocate_trace [of env "ImageName i" sz w1]
  obtain aev where aev: "trace (snd A) = trace w1 @ aev" "\<forall>n r. E_Attach n r \<notin> set aev"
    unfolding A_def by blast
  have tr1: "trace w1 = trace w @ [E_Printf ''PreNoMachine: %s, size: %d'' [ArgS (ImageName i), ArgD sz]]"
    by (simp add: w1_def Printf_def)
  show ?thesis
  proof (cases "fst A")
    case (Some e)
    then have "R = (Some e, i\<lparr>size_f := sz\<rparr>, ctx, snd A)"
      using Inr by (simp add: R_def PreNoMachine_def Let_def w1_def A_def case_prod_beta)
    then have "fst R = Some e" "fst (snd R) = i\<lparr>size_f := sz\<rparr>" "fst (snd (snd R)) = ctx"
      "ev = E_Printf ''PreNoMachine: %s, size: %d'' [ArgS (ImageName i), ArgD sz] # aev"
      using aev(1) tr1 by (simp_all add: ev_def new_events_def)
    with Inr aev(2) show ?thesis using allocate by blast
  next
    case None
    obtain d aerr where at: "Attach_r env (trace (snd A)) (ImageName i) = (d, aerr)"
      by (cases "Attach_r env (trace (snd A)) (ImageName i)")
    define w3 where "w3 = emit (E_Attach (ImageName i) (d, aerr)) (snd A)"
    have tr3: "trace w3 = trace w @
        E_Printf ''PreNoMachine: %s, size: %d'' [ArgS (ImageName i), ArgD sz] # aev @
        [E_Attach (ImageName i) (d, aerr)]"
      using aev(1) tr1 by (simp add: w3_def)
    show ?thesis
    proof (cases aerr)
      case (Some e)
      have "R = (Some ''Failed to setup loop device - need sudo?'',
                 i\<lparr>size_f := sz, loopDev := d\<rparr>, ctx, w3)"
        using Inr None at Some
        by (simp add: R_def PreNoMachine_def Let_def w1_def A_def w3_def Attach_def case_prod_beta)
      then have "fst R = Some ''Failed to setup loop device - need sudo?''"
        "fst (snd R) = i\<lparr>size_f := sz, loopDev := d\<rparr>" "fst (snd (snd R)) = ctx"
        "ev = E_Printf ''PreNoMachine: %s, size: %d'' [ArgS (ImageName i), ArgD sz] # aev @
            [E_Attach (ImageName i) (d, Some e)]"
        using tr3 Some by (simp_all add: ev_def new_events_def)
      with Inr aev(2) show ?thesis using attach by blast
    next
      case an: None
      have "R = (None, i\<lparr>size_f := sz, loopDev := d, usingLoop := True\<rparr>,
                 ctx\<lparr>Image_ctx := Path env d\<rparr>, w3)"
        using Inr None at an
        by (simp add: R_def PreNoMachine_def Let_def w1_def A_def w3_def Attach_def case_prod_beta)
      then have "fst R = None"
        "fst (snd R) = i\<lparr>size_f := sz, loopDev := d, usingLoop := True\<rparr>"
        "fst (snd (snd R)) = ctx\<lparr>Image_ctx := Path env d\<rparr>"
        "ev = E_Printf ''PreNoMachine: %s, size: %d'' [ArgS (ImageName i), ArgD sz] # aev @
            [E_Attach (ImageName i) (d, None)]"
        using tr3 an by (simp_all add: ev_def new_events_def)
      with Inr aev(2) show ?thesis using ready by blast
    qed
  qed
qed

lemmas prepare_eval =
  PreNoMachine_def PreMachine_def Attach_def CreateImage_def Printf_def
  act0_def ctx0_def

lemma PreMachine_cases:
  fixes env i ctx args w
  defines "R \<equiv> PreMachine env i ctx args w"
  defines "ev \<equiv> new_events w (snd (snd (snd (snd R))))"
  obtains
    (parse) e where "FromHumanSize env (ImageSize i) = Inl e"
      "R = (Some (''Failed to parse image size: '' @ ImageSize i), i, ctx, args, w)"
  | (create) sz e where "FromHumanSize env (ImageSize i) = Inr sz"
      "fst R = Some e" "fst (snd R) = i" "fst (snd (snd R)) = ctx"
      "fst (snd (snd (snd R))) = args"
      "ev = [E_Printf ''context.Rootdir: %s'' [ArgS (Rootdir ctx)],
             E_Printf ''PreMachine: %s, size: %d'' [ArgS (ImageName i), ArgD sz],
             E_CreateImage (ImageName i) sz (Inl e)]"
  | (ready) sz dev where "FromHumanSize env (ImageSize i) = Inr sz"
      "fst R = None" "fst (snd R) = i" "fst (snd (snd R)) = ctx\<lparr>Image_ctx := dev\<rparr>"
      "fst (snd (snd (snd R))) = args @ [''--internal-image'', dev]"
      "ev = [E_Printf ''context.Rootdir: %s'' [ArgS (Rootdir ctx)],
             E_Printf ''PreMachine: %s, size: %d'' [ArgS (ImageName i), ArgD sz],
             E_CreateImage (ImageName i) sz (Inr dev)]"
proof (cases "FromHumanSize env (ImageSize i)")
  case (Inl e)
  then have "R = (Some (''Failed to parse image size: '' @ ImageSize i), i, ctx, args, w)"
    by (simp add: R_def PreMachine_def)
  with Inl show ?thesis using parse by blast
next
  case (Inr sz)
  define h where "h = trace w @ [E_Printf ''context.Rootdir: %s'' [ArgS (Rootdir ctx)],
             E_Printf ''PreMachine: %s, size: %d'' [ArgS (ImageName i), ArgD sz]]"
  show ?thesis
  proof (cases "CreateImage_r env h (ImageName i) sz")
    case (Inl e)
    with Inr have "fst R = Some e" "fst (snd R) = i" "fst (snd (snd R)) = ctx"
      "fst (snd (snd (snd R))) = args"
      "ev = [E_Printf ''context.Rootdir: %s'' [ArgS (Rootdir ctx)],
             E_Printf ''PreMachine: %s, size: %d'' [ArgS (ImageName i), ArgD sz],
             E_CreateImage (ImageName i) sz (Inl e)]"
      by (simp_all add: R_def ev_def PreMachine_def CreateImage_def Printf_def Let_def h_def
          new_events_def)
    with Inr show ?thesis using create by blast
  next
    case r: (Inr dev)
    with Inr have "fst R = None" "fst (snd R) = i" "fst (snd (snd R)) = ctx\<lparr>Image_ctx := dev\<rparr>"
      "fst (snd (snd (snd R))) = args @ [''--internal-image'', dev]"
      "ev = [E_Printf ''context.Rootdir: %s'' [ArgS (Rootdir ctx)],
             E_Printf ''PreMachine: %s, size: %d'' [ArgS (ImageName i), ArgD sz],
             E_CreateImage (ImageName i) sz (Inr dev)]"
      by (simp_all add: R_def ev_def PreMachine_def CreateImage_def Printf_def Let_def h_def
          new_events_def)
    with Inr show ?thesis using ready by blast
  qed
qed

text \<open>
  \<^verbatim>\<open>PreMachine\<close> leaves the action as it was; a successful \<^verbatim>\<open>PreNoMachine\<close> leaves the
  parsed size in it.
\<close>

lemma PreMachine_action_unchanged: "fst (snd (PreMachine env i ctx args w)) = i"
  by (rule PreMachine_cases [of env i ctx args w]) simp_all

lemma PreNoMachine_caches_size:
  assumes "fst (PreNoMachine env i ctx w) = None"
  shows "FromHumanSize env (ImageSize i) = Inr (size_f (fst (snd (PreNoMachine env i ctx w))))"
  by (rule PreNoMachine_cases [of env i ctx w]) (use assms in simp_all)

lemma Cleanup_not_owned:
  assumes "\<not> usingLoop i"
  shows "filter (\<lambda>e. is_Detach e \<or> is_Remove e) (new_events w (snd (Cleanup env i ctx w))) = []"
  by (rule Cleanup_cases [of w env i ctx]) (use assms in simp_all)

section \<open>Claims\<close>

text \<open>
  C1. With the filesystem type \<^verbatim>\<open>hfsx\<close>, the type recorded on the action and passed to
  the mount call after formatting should be \<^verbatim>\<open>hfsplus\<close>. \<^verbatim>\<open>formatFile\<close> records
  \<^verbatim>\<open>hfsplus\<close> on its own copy of the action only: on the example action with type
  \<^verbatim>\<open>hfsx\<close>, in an environment where every call succeeds, \<^verbatim>\<open>Run\<close> passes \<^verbatim>\<open>hfsx\<close> to
  the mount call.
\<close>

theorem Run_hfsx_mount_type:
  "new_events w0 (snd (snd (Run env_ok (act0\<lparr>FS := ''hfsx''\<rparr>) ctx1 w0))) =
     [E_LogStart, E_Printf ''Run: /dev/loop0'' [], E_Open ''/dev/loop0'' None,
      E_Flock ''/dev/loop0'' None,
      E_CommandRun ''Formatting file''
        [''mkfs.hfsplus'', ''-s'', ''-v'', ''debian'', ''/dev/loop0''] None,
      E_EvalSymlinks ''/dev/loop0'' (''/dev/loop0'', None),
      E_MkdirAll ''/scratch/mnt'' None,
      E_Mount ''/dev/loop0'' ''/scratch/mnt'' ''hfsx'' None,
      E_Close ''/dev/loop0''] \<and>
   FS (fst (snd (formatFile env_ok (act0\<lparr>FS := ''hfsx''\<rparr>) ctx1 w0))) = ''hfsplus''"
  by (simp add: Run_def Run_locked_def formatFile_def formatFile_switch_def Open_def Flock_def CommandRun_def
      EvalSymlinks_def MkdirAll_def Mount_def Close_def Printf_def emit_def new_events_def
      Let_def act0_def ctx1_def ctx0_def env_ok_def w0_def)

text \<open>
  C2. The claim: in every \<^verbatim>\<open>Cleanup\<close> the unmount is attempted exactly once, and the
  release of the loop device exactly once if and only if \<^verbatim>\<open>usingLoop\<close> is set. It fails
  where the action owns a loop device and the unmount fails: \<^verbatim>\<open>Cleanup\<close> returns the
  unmount error at once and never detaches.
\<close>

theorem Cleanup_release_counterexample:
  "\<not> (length (filter is_Unmount
          (new_events w0 (snd (Cleanup env_unmount_busy act_loop ctx_mnt w0)))) = 1 \<and>
      (length (filter is_Detach
          (new_events w0 (snd (Cleanup env_unmount_busy act_loop ctx_mnt w0)))) = 1) =
        usingLoop act_loop)"
  by (simp add: cleanup_eval env_unmount_busy_def)

text \<open>
  C2, as amended. In every \<^verbatim>\<open>Cleanup\<close> the unmount is attempted exactly once, first.
  When it fails with an error \<open>e\<close>, \<^verbatim>\<open>Cleanup\<close> returns \<open>e\<close> and attempts neither a detach
  nor a removal. The detach is attempted exactly once if \<^verbatim>\<open>usingLoop\<close> is set and the
  unmount succeeded, and not at all otherwise. Removals are attempted, between 1 and 60
  times and after the detach, exactly when the detach succeeded.
\<close>

theorem Cleanup_attempts:
  fixes env i ctx w
  defines "R \<equiv> Cleanup env i ctx w"
  defines "ev \<equiv> new_events w (snd R)"
  shows "length (filter is_Unmount ev) = 1 \<and> is_Unmount (hd ev) \<and>
     (\<forall>e. E_Unmount (ImageMntDir ctx) (Some e) \<in> set ev \<longrightarrow>
        fst R = Some e \<and> filter (\<lambda>x. is_Detach x \<or> is_Remove x) ev = []) \<and>
     length (filter is_Detach ev) =
       (if usingLoop i \<and> E_Unmount (ImageMntDir ctx) None \<in> set ev then 1 else 0) \<and>
     (filter is_Remove ev \<noteq> []) = (E_Detach (loopDev i) None \<in> set ev) \<and>
     length (filter is_Remove ev) \<le> 60 \<and>
     filter is_Remove (takeWhile (\<lambda>e. \<not> is_Detach e) ev) = []"
proof -
  from Cleanup_cases [of w env i ctx] show ?thesis
  proof cases
    case (unmount e)
    then show ?thesis unfolding ev_def R_def by simp
  next
    case no_loop
    then show ?thesis unfolding ev_def R_def by simp
  next
    case (detach e)
    then show ?thesis unfolding ev_def R_def by simp
  next
    case (remove errs)
    have n: "length (filter is_Remove ev) = (if length errs < 60 then length errs + 1 else length errs)"
      unfolding ev_def R_def remove(3) by (rule Cleanup_Remove_count)
    have "0 < length (filter is_Remove ev)" using n remove(2) by (simp split: if_splits)
    then have ne: "filter is_Remove ev \<noteq> []" by auto
    have le: "length (filter is_Remove ev) \<le> 60" using n remove(2) by (simp split: if_splits)
    have rest: "length (filter is_Unmount ev) = 1" "is_Unmount (hd ev)"
      "length (filter is_Detach ev) = 1" "E_Unmount (ImageMntDir ctx) None \<in> set ev"
      "E_Detach (loopDev i) None \<in> set ev"
      "filter is_Remove (takeWhile (\<lambda>e. \<not> is_Detach e) ev) = []"
      "\<And>e. E_Unmount (ImageMntDir ctx) (Some e) \<notin> set ev"
      unfolding ev_def R_def remove(3)
      by (simp_all add: failed_attempts_not_Detach failed_attempts_not_Unmount failed_attempt_def)
    from ne le rest remove(1) show ?thesis by simp
  qed
qed

theorem Cleanup_attempts_witness:
  "E_Unmount (ImageMntDir ctx_mnt) (Some ''device or resource busy'') \<in>
     set (new_events w0 (snd (Cleanup env_unmount_busy act_loop ctx_mnt w0))) \<and>
   usingLoop act_loop \<and>
   fst (Cleanup env_unmount_busy act_loop ctx_mnt w0) = Some ''device or resource busy'' \<and>
   filter (\<lambda>x. is_Detach x \<or> is_Remove x)
     (new_events w0 (snd (Cleanup env_unmount_busy act_loop ctx_mnt w0))) = [] \<and>
   length (filter is_Unmount
     (new_events w0 (snd (Cleanup env_unmount_busy act_loop ctx_mnt w0)))) = 1"
proof -
  have mem: "E_Unmount (ImageMntDir ctx_mnt) (Some ''device or resource busy'') \<in>
     set (new_events w0 (snd (Cleanup env_unmount_busy act_loop ctx_mnt w0)))"
    by (simp add: cleanup_eval env_unmount_busy_def)
  have u: "usingLoop act_loop" by (simp add: act_loop_def)
  from Cleanup_attempts [where env = env_unmount_busy and i = act_loop and ctx = ctx_mnt and w = w0]
    mem u
  show ?thesis by blast
qed

text \<open>
  C3. Once the loop device is detached, the removal loop of \<^verbatim>\<open>Cleanup\<close> makes at most 60
  removal attempts; every failed attempt is followed by a log line and a sleep of one
  second, so consecutive attempts are one second apart; the first attempt that succeeds
  ends the loop and \<^verbatim>\<open>Cleanup\<close> returns no error; and \<^verbatim>\<open>Cleanup\<close> returns a removal
  error (that of the last attempt) exactly when all 60 attempts have failed. Here
  \<open>errs\<close> are the errors of the failed attempts, in order.
\<close>

theorem Cleanup_removal_retry:
  fixes env i ctx w
  defines "d \<equiv> loopDev i" and "R \<equiv> Cleanup env i ctx w"
  defines "ev \<equiv> new_events w (snd R)"
  assumes "E_Detach d None \<in> set ev"
  shows "\<exists>errs. length errs \<le> 60 \<and>
     ev = [E_Unmount (ImageMntDir ctx) None, E_Detach d None] @
          concat (map (failed_attempt d) errs) @
          (if length errs < 60 then [E_Remove d None]
           else [E_Printf ''WARNING: Failed to remove loop device: %s'' [ArgS (last errs)]]) \<and>
     fst R = (if length errs < 60 then None else Some (last errs)) \<and>
     length (filter is_Remove ev) = (if length errs < 60 then length errs + 1 else 60)"
proof -
  from Cleanup_cases [of w env i ctx] show ?thesis
  proof cases
    case (unmount e)
    with assms show ?thesis by simp
  next
    case no_loop
    with assms show ?thesis by simp
  next
    case (detach e)
    with assms show ?thesis by simp
  next
    case (remove errs)
    have "length (filter is_Remove ev) = (if length errs < 60 then length errs + 1 else 60)"
      using remove(2) unfolding ev_def R_def remove(3) Cleanup_Remove_count by simp
    with remove show ?thesis unfolding ev_def R_def d_def by blast
  qed
qed

theorem Cleanup_removal_retry_witness:
  "E_Detach (loopDev act_loop) None \<in> set (new_events w0 (snd (Cleanup env_remove_busy act_loop ctx_mnt w0))) \<and>
   new_events w0 (snd (Cleanup env_remove_busy act_loop ctx_mnt w0)) =
     [E_Unmount ''/scratch/mnt'' None, E_Detach 0 None,
      E_Remove 0 (Some ''device or resource busy''),
      E_Printf ''Loop dev couldn't remove %s, waiting'' [ArgS ''device or resource busy''],
      E_Sleep 1000000000,
      E_Remove 0 (Some ''device or resource busy''),
      E_Printf ''Loop dev couldn't remove %s, waiting'' [ArgS ''device or resource busy''],
      E_Sleep 1000000000,
      E_Remove 0 None] \<and>
   fst (Cleanup env_remove_busy act_loop ctx_mnt w0) = None \<and>
   (\<exists>errs. length errs \<le> 60 \<and>
     new_events w0 (snd (Cleanup env_remove_busy act_loop ctx_mnt w0)) =
       [E_Unmount (ImageMntDir ctx_mnt) None, E_Detach (loopDev act_loop) None] @
       concat (map (failed_attempt (loopDev act_loop)) errs) @
       (if length errs < 60 then [E_Remove (loopDev act_loop) None]
        else [E_Printf ''WARNING: Failed to remove loop device: %s'' [ArgS (last errs)]]) \<and>
     fst (Cleanup env_remove_busy act_loop ctx_mnt w0) =
       (if length errs < 60 then None else Some (last errs)) \<and>
     length (filter is_Remove (new_events w0 (snd (Cleanup env_remove_busy act_loop ctx_mnt w0)))) =
       (if length errs < 60 then length errs + 1 else 60))"
proof -
  have ev: "new_events w0 (snd (Cleanup env_remove_busy act_loop ctx_mnt w0)) =
     [E_Unmount ''/scratch/mnt'' None, E_Detach 0 None,
      E_Remove 0 (Some ''device or resource busy''),
      E_Printf ''Loop dev couldn't remove %s, waiting'' [ArgS ''device or resource busy''],
      E_Sleep 1000000000,
      E_Remove 0 (Some ''device or resource busy''),
      E_Printf ''Loop dev couldn't remove %s, waiting'' [ArgS ''device or resource busy''],
      E_Sleep 1000000000,
      E_Remove 0 None]"
    and res: "fst (Cleanup env_remove_busy act_loop ctx_mnt w0) = None"
    by (simp_all add: cleanup_eval env_remove_busy_def remove_loop.simps)
  have mem: "E_Detach (loopDev act_loop) None \<in>
      set (new_events w0 (snd (Cleanup env_remove_busy act_loop ctx_mnt w0)))"
    unfolding ev by (simp add: act_loop_def)
  from Cleanup_removal_retry [OF mem] mem ev res show ?thesis by blast
qed

text \<open>
  C4. On every path of \<^verbatim>\<open>Run\<close>: whenever the format command runs or the mount call is
  made, the exclusive lock on the image device is held (it was taken before, and no close
  came in between), it is still held when the mount call has returned, and at the end of
  \<^verbatim>\<open>Run\<close> the lock is not held any more.
\<close>

theorem Run_lock_scope:
  fixes env i ctx w
  defines "p \<equiv> Image_ctx ctx"
  defines "ev \<equiv> new_events w (snd (snd (Run env i ctx w)))"
  shows "\<not> holds_lock p ev \<and>
    (\<forall>pre e post. ev = pre @ e # post \<and> (is_CommandRun e \<or> is_Mount e) \<longrightarrow>
       holds_lock p pre \<and> holds_lock p (pre @ [e]))"
proof (intro conjI allI impI)
  show "\<not> holds_lock p ev" using Run_lock_ok [of ctx w env i] by (simp add: p_def ev_def)
next
  fix pre e post
  assume a: "ev = pre @ e # post \<and> (is_CommandRun e \<or> is_Mount e)"
  then have "lock_ok p False (pre @ e # post)"
    using Run_lock_ok [of ctx w env i] by (simp add: p_def ev_def)
  with a have h: "foldl (lock_step p) False pre" by (blast dest: lock_ok_split)
  then show "holds_lock p pre" by (simp add: holds_lock_def)
  from a h show "holds_lock p (pre @ [e])" by (cases e) (auto simp: holds_lock_def)
qed

theorem Run_lock_scope_witness:
  "new_events w0 (snd (snd (Run env_ok act0 ctx1 w0))) =
     [E_LogStart, E_Printf ''Run: /dev/loop0'' [], E_Open ''/dev/loop0'' None,
      E_Flock ''/dev/loop0'' None,
      E_CommandRun ''Formatting file'' [''mkfs.ext4'', ''-L'', ''debian'', ''/dev/loop0''] None,
      E_EvalSymlinks ''/dev/loop0'' (''/dev/loop0'', None),
      E_MkdirAll ''/scratch/mnt'' None] @
     E_Mount ''/dev/loop0'' ''/scratch/mnt'' ''ext4'' None # [E_Close ''/dev/loop0''] \<and>
   is_Mount (E_Mount ''/dev/loop0'' ''/scratch/mnt'' ''ext4'' None) \<and>
   holds_lock ''/dev/loop0''
     [E_LogStart, E_Printf ''Run: /dev/loop0'' [], E_Open ''/dev/loop0'' None,
      E_Flock ''/dev/loop0'' None,
      E_CommandRun ''Formatting file'' [''mkfs.ext4'', ''-L'', ''debian'', ''/dev/loop0''] None,
      E_EvalSymlinks ''/dev/loop0'' (''/dev/loop0'', None),
      E_MkdirAll ''/scratch/mnt'' None] \<and>
   \<not> holds_lock ''/dev/loop0'' (new_events w0 (snd (snd (Run env_ok act0 ctx1 w0))))"
proof -
  have ev: "new_events w0 (snd (snd (Run env_ok act0 ctx1 w0))) =
     [E_LogStart, E_Printf ''Run: /dev/loop0'' [], E_Open ''/dev/loop0'' None,
      E_Flock ''/dev/loop0'' None,
      E_CommandRun ''Formatting file'' [''mkfs.ext4'', ''-L'', ''debian'', ''/dev/loop0''] None,
      E_EvalSymlinks ''/dev/loop0'' (''/dev/loop0'', None),
      E_MkdirAll ''/scratch/mnt'' None] @
     E_Mount ''/dev/loop0'' ''/scratch/mnt'' ''ext4'' None # [E_Close ''/dev/loop0'']"
    by (simp add: run_eval)
  have p: "Image_ctx ctx1 = ''/dev/loop0''" by (simp add: ctx1_def)
  have m: "is_Mount (E_Mount ''/dev/loop0'' ''/scratch/mnt'' ''ext4'' None)" by simp
  from Run_lock_scope [where env = env_ok and i = act0 and ctx = ctx1 and w = w0]
  show ?thesis unfolding p using ev m by blast
qed

text \<open>
  C5. For every filesystem type, \<^verbatim>\<open>formatFile\<close> runs exactly the command of the dispatch
  table, with the configured label and then the image path: the named cases \<^verbatim>\<open>vfat\<close>,
  \<^verbatim>\<open>btrfs\<close>, \<^verbatim>\<open>hfs\<close>, \<^verbatim>\<open>hfsplus\<close>, \<^verbatim>\<open>hfsx\<close> their own commands, \<^verbatim>\<open>none\<close> no
  command at all, and any other type the generic \<^verbatim>\<open>mkfs.<type> -L <label>\<close>. The error
  returned is the outcome of the command.
\<close>

theorem formatFile_dispatch:
  fixes env i ctx w
  defines "F \<equiv> formatFile env i ctx w"
  defines "ev \<equiv> new_events w (snd (snd F))"
  defines "run \<equiv> (\<lambda>c. [E_CommandRun ''Formatting file'' (c @ [Image_ctx ctx]) (fst F)])"
  shows "(FS i = ''vfat'' \<longrightarrow> ev = run [''mkfs.vfat'', ''-F32'', ''-n'', FSName i]) \<and>
         (FS i = ''btrfs'' \<longrightarrow> ev = run [''mkfs.btrfs'', ''-L'', FSName i, ''-f'']) \<and>
         (FS i = ''hfs'' \<longrightarrow> ev = run [''mkfs.hfs'', ''-h'', ''-v'', FSName i]) \<and>
         (FS i = ''hfsplus'' \<longrightarrow> ev = run [''mkfs.hfsplus'', ''-v'', FSName i]) \<and>
         (FS i = ''hfsx'' \<longrightarrow> ev = run [''mkfs.hfsplus'', ''-s'', ''-v'', FSName i]) \<and>
         (FS i = ''none'' \<longrightarrow> ev = [] \<and> fst F = None) \<and>
         (FS i \<notin> {''vfat'', ''btrfs'', ''hfs'', ''hfsplus'', ''hfsx'', ''none''} \<longrightarrow>
            ev = run [''mkfs.'' @ FS i, ''-L'', FSName i])"
  unfolding F_def ev_def run_def
  by (simp add: formatFile_def formatFile_switch_def CommandRun_def Let_def new_events_def split: option.splits)

theorem formatFile_dispatch_witness:
  "new_events w0 (snd (snd (formatFile env_ok (act0\<lparr>FS := ''vfat''\<rparr>) ctx1 w0))) =
     [E_CommandRun ''Formatting file'' [''mkfs.vfat'', ''-F32'', ''-n'', ''debian'', ''/dev/loop0''] None] \<and>
   new_events w0 (snd (snd (formatFile env_ok (act0\<lparr>FS := ''btrfs''\<rparr>) ctx1 w0))) =
     [E_CommandRun ''Formatting file'' [''mkfs.btrfs'', ''-L'', ''debian'', ''-f'', ''/dev/loop0''] None] \<and>
   new_events w0 (snd (snd (formatFile env_ok (act0\<lparr>FS := ''hfs''\<rparr>) ctx1 w0))) =
     [E_CommandRun ''Formatting file'' [''mkfs.hfs'', ''-h'', ''-v'', ''debian'', ''/dev/loop0''] None] \<and>
   new_events w0 (snd (snd (formatFile env_ok (act0\<lparr>FS := ''hfsplus''\<rparr>) ctx1 w0))) =
     [E_CommandRun ''Formatting file'' [''mkfs.hfsplus'', ''-v'', ''debian'', ''/dev/loop0''] None] \<and>
   new_events w0 (snd (snd (formatFile env_ok (act0\<lparr>FS := ''hfsx''\<rparr>) ctx1 w0))) =
     [E_CommandRun ''Formatting file'' [''mkfs.hfsplus'', ''-s'', ''-v'', ''debian'', ''/dev/loop0''] None] \<and>
   new_events w0 (snd (snd (formatFile env_ok (act0\<lparr>FS := ''none''\<rparr>) ctx1 w0))) = [] \<and>
   new_events w0 (snd (snd (formatFile env_ok act0 ctx1 w0))) =
     [E_CommandRun ''Formatting file'' [''mkfs.ext4'', ''-L'', ''debian'', ''/dev/loop0''] None]"
  using formatFile_dispatch [where i = "act0\<lparr>FS := ''vfat''\<rparr>" and env = env_ok and ctx = ctx1 and w = w0]
    formatFile_dispatch [where i = "act0\<lparr>FS := ''btrfs''\<rparr>" and env = env_ok and ctx = ctx1 and w = w0]
    formatFile_dispatch [where i = "act0\<lparr>FS := ''hfs''\<rparr>" and env = env_ok and ctx = ctx1 and w = w0]
    formatFile_dispatch [where i = "act0\<lparr>FS := ''hfsplus''\<rparr>" and env = env_ok and ctx = ctx1 and w = w0]
    formatFile_dispatch [where i = "act0\<lparr>FS := ''hfsx''\<rparr>" and env = env_ok and ctx = ctx1 and w = w0]
    formatFile_dispatch [where i = "act0\<lparr>FS := ''none''\<rparr>" and env = env_ok and ctx = ctx1 and w = w0]
    formatFile_dispatch [where i = act0 and env = env_ok and ctx = ctx1 and w = w0]
  by (simp add: act0_def ctx1_def ctx0_def env_ok_def formatFile_def formatFile_switch_def CommandRun_def Let_def)

text \<open>
  C6. After either preparation phase succeeds, the parsed size should be cached in the
  action. On the example action, whose size string \<^verbatim>\<open>1GB\<close> parses to 1000000000,
  \<^verbatim>\<open>PreMachine\<close> succeeds and leaves the field \<^verbatim>\<open>size\<close> of the action at 0: it assigns
  the field on its own copy of the action. \<^verbatim>\<open>PreNoMachine\<close> leaves 1000000000 there.
\<close>

theorem PreMachine_size_not_cached:
  "fst (PreMachine env_ok act0 ctx0 [] w0) = None \<and>
   FromHumanSize env_ok (ImageSize act0) = Inr 1000000000 \<and>
   size_f (fst (snd (PreMachine env_ok act0 ctx0 [] w0))) = 0 \<and>
   fst (PreNoMachine env_ok act0 ctx0 w0) = None \<and>
   size_f (fst (snd (PreNoMachine env_ok act0 ctx0 w0))) = 1000000000"
  by (simp add: prepare_eval allocate_eval)

text \<open>
  C7. Allocating twice with the same path and size, both calls succeeding: after the
  first call the file at the path has exactly \<open>sz\<close> bytes, namely the first \<open>sz\<close> bytes of
  what was there before, extended with zero bytes when that was shorter (a larger file is
  cut, nothing is appended), no other file is touched, and the second call changes no
  file at all.
\<close>

theorem allocate_idempotent:
  fixes env name sz w
  defines "w1 \<equiv> snd (allocate env name sz w)"
  defines "w2 \<equiv> snd (allocate env name sz w1)"
  assumes "fst (allocate env name sz w) = None" and "fst (allocate env name sz w1) = None"
  shows "files w2 = files w1 \<and>
    (\<exists>c. files w1 name = Some c \<and> int (length c) = sz \<and>
         c = resize (nat sz) (case files w name of None \<Rightarrow> [] | Some c0 \<Rightarrow> c0)) \<and>
    (\<forall>c0. files w name = Some c0 \<and> nat sz \<le> length c0 \<longrightarrow>
         files w1 name = Some (take (nat sz) c0)) \<and>
    (\<forall>q. q \<noteq> name \<longrightarrow> files w1 q = files w q)"
proof -
  have f1: "files w1 = (files w)(name \<mapsto> resize (nat sz) (case files w name of None \<Rightarrow> [] | Some c \<Rightarrow> c))"
    and sz: "0 \<le> sz"
    using allocate_success [OF assms(3)] by (simp_all add: w1_def)
  have f2: "files w2 = (files w1)(name \<mapsto> resize (nat sz) (case files w1 name of None \<Rightarrow> [] | Some c \<Rightarrow> c))"
    using allocate_success [OF assms(4)] by (simp_all add: w2_def)
  have "files w2 = files w1" unfolding f2 by (auto simp: f1 resize_resize)
  moreover have "\<exists>c. files w1 name = Some c \<and> int (length c) = sz \<and>
         c = resize (nat sz) (case files w name of None \<Rightarrow> [] | Some c0 \<Rightarrow> c0)"
    using sz by (simp add: f1 length_resize)
  moreover have "\<forall>c0. files w name = Some c0 \<and> nat sz \<le> length c0 \<longrightarrow>
         files w1 name = Some (take (nat sz) c0)"
    by (simp add: f1 resize_longer)
  moreover have "\<forall>q. q \<noteq> name \<longrightarrow> files w1 q = files w q"
    by (simp add: f1)
  ultimately show ?thesis by blast
qed

theorem allocate_idempotent_witness:
  "fst (allocate env_ok ''debian.img'' 3 w_big) = None \<and>
   fst (allocate env_ok ''debian.img'' 3 (snd (allocate env_ok ''debian.img'' 3 w_big))) = None \<and>
   files w_big ''debian.img'' = Some [1, 2, 3, 4, 5] \<and>
   files (snd (allocate env_ok ''debian.img'' 3 w_big)) ''debian.img'' = Some [1, 2, 3] \<and>
   files (snd (allocate env_ok ''debian.img'' 3 (snd (allocate env_ok ''debian.img'' 3 w_big)))) =
     files (snd (allocate env_ok ''debian.img'' 3 w_big))"
proof -
  have a1: "fst (allocate env_ok ''debian.img'' 3 w_big) = None"
    by (simp add: allocate_eval)
  have a2: "fst (allocate env_ok ''debian.img'' 3 (snd (allocate env_ok ''debian.img'' 3 w_big))) = None"
    by (simp add: allocate_eval)
  have b: "files w_big ''debian.img'' = Some [1, 2, 3, 4, 5]"
    by (simp add: w_big_def w0_def)
  from allocate_idempotent [OF a1 a2] b
  have "files (snd (allocate env_ok ''debian.img'' 3 w_big)) ''debian.img'' = Some [1, 2, 3]"
    and "files (snd (allocate env_ok ''debian.img'' 3 (snd (allocate env_ok ''debian.img'' 3 w_big)))) =
     files (snd (allocate env_ok ''debian.img'' 3 w_big))"
    by (simp_all add: resize_def)
  with a1 a2 b show ?thesis by blast
qed

text \<open>
  C8. When \<^verbatim>\<open>CreateImage\<close> succeeds in \<^verbatim>\<open>PreMachine\<close> and returns the path \<open>dev\<close>:
  \<^verbatim>\<open>PreMachine\<close> returns no error, the image field of the context is \<open>dev\<close>, the two
  arguments \<^verbatim>\<open>--internal-image\<close> and \<open>dev\<close> are appended to the argument list, and the flag
  \<^verbatim>\<open>usingLoop\<close> of the action is what it was; when it was not set, no later \<^verbatim>\<open>Cleanup\<close>
  of the action detaches or removes a device.
\<close>

theorem PreMachine_records_image:
  fixes env i ctx args w
  defines "R \<equiv> PreMachine env i ctx args w"
  assumes "E_CreateImage name sz (Inr dev) \<in> set (new_events w (snd (snd (snd (snd R)))))"
  shows "fst R = None \<and>
         fst (snd (snd R)) = ctx\<lparr>Image_ctx := dev\<rparr> \<and>
         fst (snd (snd (snd R))) = args @ [''--internal-image'', dev] \<and>
         usingLoop (fst (snd R)) = usingLoop i \<and>
         (\<not> usingLoop i \<longrightarrow>
            (\<forall>env' ctx' w'. filter (\<lambda>e. is_Detach e \<or> is_Remove e)
               (new_events w' (snd (Cleanup env' (fst (snd R)) ctx' w'))) = []))"
proof -
  from PreMachine_cases [of env i ctx args w] show ?thesis
  proof cases
    case (parse e)
    with assms show ?thesis by (simp add: new_events_def)
  next
    case (create sz' e)
    with assms show ?thesis by simp
  next
    case (ready sz' dev')
    with assms have "dev' = dev" by simp
    with ready show ?thesis unfolding R_def by (simp add: Cleanup_not_owned)
  qed
qed

theorem PreMachine_records_image_witness:
  "E_CreateImage ''debian.img'' 1000000000 (Inr ''/dev/disk/by-id/virtio-fakedisk-0'') \<in>
     set (new_events w0 (snd (snd (snd (snd (PreMachine env_ok act0 ctx0 [''--verbose''] w0)))))) \<and>
   fst (PreMachine env_ok act0 ctx0 [''--verbose''] w0) = None \<and>
   Image_ctx (fst (snd (snd (PreMachine env_ok act0 ctx0 [''--verbose''] w0)))) =
     ''/dev/disk/by-id/virtio-fakedisk-0'' \<and>
   fst (snd (snd (snd (PreMachine env_ok act0 ctx0 [''--verbose''] w0)))) =
     [''--verbose'', ''--internal-image'', ''/dev/disk/by-id/virtio-fakedisk-0''] \<and>
   \<not> usingLoop (fst (snd (PreMachine env_ok act0 ctx0 [''--verbose''] w0))) \<and>
   filter (\<lambda>e. is_Detach e \<or> is_Remove e)
     (new_events w0 (snd (Cleanup env_ok (fst (snd (PreMachine env_ok act0 ctx0 [''--verbose''] w0)))
        ctx_mnt w0))) = []"
proof -
  have mem: "E_CreateImage ''debian.img'' 1000000000 (Inr ''/dev/disk/by-id/virtio-fakedisk-0'') \<in>
     set (new_events w0 (snd (snd (snd (snd (PreMachine env_ok act0 ctx0 [''--verbose''] w0))))))"
    by (simp add: prepare_eval new_events_def env_ok_def emit_def Let_def)
  have u: "\<not> usingLoop act0" by (simp add: act0_def)
  from PreMachine_records_image [OF mem] u mem show ?thesis by simp
qed

text \<open>
  C9. Whatever \<^verbatim>\<open>os.MkdirAll\<close> returns in \<^verbatim>\<open>Run\<close>, an error included, the next call is
  the mount at that directory, then the deferred close; and \<^verbatim>\<open>Run\<close> returns nothing
  but the outcome of the mount: no error when it succeeds, the mount error when it fails.
\<close>

theorem Run_MkdirAll_error_ignored:
  assumes "new_events w (snd (snd (Run env i ctx w))) = pre @ E_MkdirAll dir r # post"
  shows "\<exists>dev m. post = [E_Mount dev dir (FS i) m, E_Close (Image_ctx ctx)] \<and>
           fst (Run env i ctx w) = map_option (\<lambda>e. dir @ '' mount failed: '' @ e) m \<and>
           dir = path_Join env (Scratchdir ctx) ''mnt''"
proof -
  define ev where "ev = new_events w (snd (snd (Run env i ctx w)))"
  have mem: "E_MkdirAll dir r \<in> set ev" using assms by (simp add: ev_def)
  from Run_cases [of w env i ctx]
  obtain fev r1 r2 m where
    ev: "ev = ([E_LogStart, E_Printf (''Run: '' @ Image_ctx ctx) [], E_Open (Image_ctx ctx) None,
              E_Flock (Image_ctx ctx) None] @ fev @ [E_EvalSymlinks (Image_ctx ctx) r1]) @
            E_MkdirAll (path_Join env (Scratchdir ctx) ''mnt'') r2 #
            [E_Mount (fst r1) (path_Join env (Scratchdir ctx) ''mnt'') (FS i) m,
             E_Close (Image_ctx ctx)]"
    and fev: "fev = [] \<or> (\<exists>c. fev = [E_CommandRun ''Formatting file'' c None])"
    and res: "fst (Run env i ctx w) =
         map_option (\<lambda>e. path_Join env (Scratchdir ctx) ''mnt'' @ '' mount failed: '' @ e) m"
    using mem unfolding ev_def [symmetric] by (elim disjE exE conjE) auto
  from split_unique [OF ev [unfolded ev_def assms, symmetric], of is_MkdirAll] fev
  have "post = [E_Mount (fst r1) (path_Join env (Scratchdir ctx) ''mnt'') (FS i) m,
             E_Close (Image_ctx ctx)]" and "dir = path_Join env (Scratchdir ctx) ''mnt''"
    by auto
  with res show ?thesis by simp
qed

theorem Run_MkdirAll_error_ignored_witness:
  "new_events w0 (snd (snd (Run env_mkdir_fails act0 ctx1 w0))) =
     [E_LogStart, E_Printf ''Run: /dev/loop0'' [], E_Open ''/dev/loop0'' None,
      E_Flock ''/dev/loop0'' None,
      E_CommandRun ''Formatting file'' [''mkfs.ext4'', ''-L'', ''debian'', ''/dev/loop0''] None,
      E_EvalSymlinks ''/dev/loop0'' (''/dev/loop0'', None)] @
     E_MkdirAll ''/scratch/mnt'' (Some ''permission denied'') #
     [E_Mount ''/dev/loop0'' ''/scratch/mnt'' ''ext4'' None, E_Close ''/dev/loop0''] \<and>
   fst (Run env_mkdir_fails act0 ctx1 w0) = None \<and>
   new_events w0 (snd (snd (Run env_mkdir_mount_fail act0 ctx1 w0))) =
     [E_LogStart, E_Printf ''Run: /dev/loop0'' [], E_Open ''/dev/loop0'' None,
      E_Flock ''/dev/loop0'' None,
      E_CommandRun ''Formatting file'' [''mkfs.ext4'', ''-L'', ''debian'', ''/dev/loop0''] None,
      E_EvalSymlinks ''/dev/loop0'' (''/dev/loop0'', None)] @
     E_MkdirAll ''/scratch/mnt'' (Some ''permission denied'') #
     [E_Mount ''/dev/loop0'' ''/scratch/mnt'' ''ext4'' (Some ''no such file or directory''),
      E_Close ''/dev/loop0''] \<and>
   fst (Run env_mkdir_mount_fail act0 ctx1 w0) =
     Some ''/scratch/mnt mount failed: no such file or directory''"
proof -
  have ev1: "new_events w0 (snd (snd (Run env_mkdir_fails act0 ctx1 w0))) =
     [E_LogStart, E_Printf ''Run: /dev/loop0'' [], E_Open ''/dev/loop0'' None,
      E_Flock ''/dev/loop0'' None,
      E_CommandRun ''Formatting file'' [''mkfs.ext4'', ''-L'', ''debian'', ''/dev/loop0''] None,
      E_EvalSymlinks ''/dev/loop0'' (''/dev/loop0'', None)] @
     E_MkdirAll ''/scratch/mnt'' (Some ''permission denied'') #
     [E_Mount ''/dev/loop0'' ''/scratch/mnt'' ''ext4'' None, E_Close ''/dev/loop0'']"
    by (simp add: run_eval env_mkdir_fails_def)
  have ev2: "new_events w0 (snd (snd (Run env_mkdir_mount_fail act0 ctx1 w0))) =
     [E_LogStart, E_Printf ''Run: /dev/loop0'' [], E_Open ''/dev/loop0'' None,
      E_Flock ''/dev/loop0'' None,
      E_CommandRun ''Formatting file'' [''mkfs.ext4'', ''-L'', ''debian'', ''/dev/loop0''] None,
      E_EvalSymlinks ''/dev/loop0'' (''/dev/loop0'', None)] @
     E_MkdirAll ''/scratch/mnt'' (Some ''permission denied'') #
     [E_Mount ''/dev/loop0'' ''/scratch/mnt'' ''ext4'' (Some ''no such file or directory''),
      E_Close ''/dev/loop0'']"
    by (simp add: run_eval env_mkdir_fails_def env_mkdir_mount_fail_def)
  from Run_MkdirAll_error_ignored [OF ev1]
  have r1: "fst (Run env_mkdir_fails act0 ctx1 w0) = None" by auto
  from Run_MkdirAll_error_ignored [OF ev2]
  have r2: "fst (Run env_mkdir_mount_fail act0 ctx1 w0) =
     Some ''/scratch/mnt mount failed: no such file or directory''" by auto
  from ev1 r1 ev2 r2 show ?thesis by blast
qed

text \<open>
  C10. When the attach of the loop device fails in \<^verbatim>\<open>PreNoMachine\<close>, with whatever error
  \<open>e\<close>, the error returned is the fixed message, which does not mention \<open>e\<close>, and the
  context (its image field included) and the flag \<^verbatim>\<open>usingLoop\<close> are as they were.
\<close>

theorem PreNoMachine_attach_failure:
  fixes env i ctx w
  defines "R \<equiv> PreNoMachine env i ctx w"
  assumes "E_Attach name (d, Some e) \<in> set (new_events w (snd (snd (snd R))))"
  shows "fst R = Some ''Failed to setup loop device - need sudo?'' \<and>
         fst (snd (snd R)) = ctx \<and> usingLoop (fst (snd R)) = usingLoop i"
proof -
  from PreNoMachine_cases [of env i ctx w] show ?thesis
  proof cases
    case (parse e')
    with assms show ?thesis by (simp add: new_events_def)
  next
    case (allocate sz e' aev)
    with assms show ?thesis by simp
  next
    case (attach sz d' e' aev)
    then show ?thesis unfolding R_def by simp
  next
    case (ready sz d' aev)
    with assms show ?thesis by simp
  qed
qed

theorem PreNoMachine_attach_failure_witness:
  "E_Attach ''debian.img'' (0, Some ''permission denied'') \<in>
     set (new_events w0 (snd (snd (snd (PreNoMachine env_attach_fails act0 ctx0 w0))))) \<and>
   fst (PreNoMachine env_attach_fails act0 ctx0 w0) =
     Some ''Failed to setup loop device - need sudo?'' \<and>
   fst (snd (snd (PreNoMachine env_attach_fails act0 ctx0 w0))) = ctx0 \<and>
   usingLoop (fst (snd (PreNoMachine env_attach_fails act0 ctx0 w0))) = usingLoop act0"
proof -
  have mem: "E_Attach ''debian.img'' (0, Some ''permission denied'') \<in>
     set (new_events w0 (snd (snd (snd (PreNoMachine env_attach_fails act0 ctx0 w0)))))"
    by (simp add: prepare_eval allocate_eval new_events_def env_attach_fails_def)
  from PreNoMachine_attach_failure [OF mem] mem show ?thesis by blast
qed

end
